theory Spec2Isabelle
  imports Main
begin

section \<open>Icon cache of the service worker (fetch.js)\<close>

text \<open>
  The service worker intercepts every fetch of the extension. Requests for icons the user
  has chosen are answered from a named cache, fetched from the network on a miss, and the
  redirects seen are remembered in \<open>chrome.storage.local\<close>. The embedding below follows
  the source function by function. Everything the worker reads or writes outside itself
  (storage, the caches, the network, the console, the clock) is explicit: what the worker
  can change is the \<open>world\<close>, what it can only observe is the \<open>env\<close>.

  The worker runs inside an extension, so the global \<open>chrome\<close> is declared; whether
  \<open>chrome.storage\<close> is there is part of the environment. Requests are \<open>GET\<close> requests
  and a cache matches a request by its URL. URLs, header values and bodies are strings;
  times are integers, in milliseconds.
\<close>

subsection \<open>Strings\<close>

text \<open>\<open>String.prototype.startsWith\<close> and \<open>String.prototype.includes\<close>.\<close>

fun starts_with :: "string \<Rightarrow> string \<Rightarrow> bool" where
  "starts_with s [] = True"
| "starts_with [] (c # cs) = False"
| "starts_with (x # xs) (c # cs) = (x = c \<and> starts_with xs cs)"

fun str_includes :: "string \<Rightarrow> string \<Rightarrow> bool" where
  "str_includes [] t = (t = [])"
| "str_includes (x # xs) t = (starts_with (x # xs) t \<or> str_includes xs t)"

text \<open>
  Header names are matched without regard to case: a \<open>Headers\<close> object keeps its names
  in lower case and \<open>get\<close> lowers the name it is asked for.
\<close>

definition ascii_lower :: "char \<Rightarrow> char" where
  "ascii_lower c =
     (case map_of (zip ''ABCDEFGHIJKLMNOPQRSTUVWXYZ'' ''abcdefghijklmnopqrstuvwxyz'') c of
        Some l \<Rightarrow> l
      | None \<Rightarrow> c)"

text \<open>
  JavaScript truthiness of the result of a lookup that yields a string or nothing:
  \<open>null\<close>, \<open>undefined\<close> and the empty string are falsy.
\<close>

definition truthy :: "string option \<Rightarrow> bool" where
  "truthy v = (case v of None \<Rightarrow> False | Some s \<Rightarrow> s \<noteq> [])"

subsection \<open>Data\<close>

type_synonym headers = "string \<rightharpoonup> string"

definition headers_get :: "headers \<Rightarrow> string \<Rightarrow> string option" where
  "headers_get h name = h (map ascii_lower name)"

text \<open>
  A \<open>Response\<close>: the URL it was finally served from (empty for a response built by the
  worker itself), the HTTP status, the headers and the body. The source tests
  \<open>response.headers\<close> for presence, so the field is optional.
\<close>

record response =
  url :: string
  status :: nat
  headers :: "headers option"
  body :: string

definition ok :: "response \<Rightarrow> bool" where
  "ok r = (200 \<le> status r \<and> status r \<le> 299)"

text \<open>
  A \<open>Request\<close> is identified by its URL: the worker only builds requests with
  \<open>new Request(url)\<close> and the caches are keyed by the request URL.
\<close>

datatype request = Request string

fun request_url :: "request \<Rightarrow> string" where
  "request_url (Request u) = u"

datatype error = NetworkError | StorageError | CacheError

text \<open>The two ways the worker calls \<open>fetch\<close>.\<close>

datatype fetch_call =
    FetchRequest request    \<comment> \<open>\<open>fetch(event.request)\<close>\<close>
  | FetchFollow string      \<comment> \<open>\<open>fetch(originalUrl, {redirect: 'follow'})\<close>\<close>

text \<open>One constructor for each \<open>console\<close> call of the source, with the values it prints.\<close>

datatype console_msg =
    WarnNoStorageApi
  | ErrorReadIconUrls error
  | ErrorReadRedirectMap error
  | ErrorSaveRedirectMap error
  | ErrorGetIconFromCache error
  | WarnNotImage string "string option"
  | ErrorCacheIcon error
  | ErrorFetchFailed string error
  | WarnIconStatus string nat
  | ErrorGetIconFailed string error
  | WarnPlaceholder string

type_synonym cache = "string \<rightharpoonup> response"

text \<open>
  What the worker can change: the two keys of \<open>chrome.storage.local\<close> it uses
  (\<open>cached-online-icon-urls\<close>, where \<open>None\<close> stands for a value that is absent or not
  an array, and \<open>icon-redirect-map\<close>, where \<open>None\<close> stands for an absent value), the
  named caches of \<open>CacheStorage\<close> in the order of their creation, the fetches issued so
  far and the console.
\<close>

record world =
  cached_online_icon_urls :: "string list option"
  icon_redirect_map :: "(string \<rightharpoonup> string) option"
  caches :: "(string \<times> cache) list"
  fetch_log :: "fetch_call list"
  console :: "console_msg list"

text \<open>
  What the worker can only observe: whether \<open>chrome.storage\<close> exists, which of the
  asynchronous operations reject (each kind of operation either works or rejects during
  one run), what the network answers (\<open>None\<close> is a transport failure: \<open>fetch\<close> rejects),
  the clock \<open>Date.now()\<close> and the date parser \<open>new Date(s).getTime()\<close> in milliseconds
  (\<open>None\<close> is \<open>NaN\<close>).
\<close>

record env =
  chrome_storage :: bool
  storage_get_fails :: "string \<Rightarrow> bool"
  storage_set_fails :: bool
  caches_open_fails :: bool
  cache_match_fails :: bool
  cache_delete_fails :: bool
  cache_put_fails :: bool
  caches_match_fails :: bool
  network :: "fetch_call \<Rightarrow> response option"
  now :: int
  parse_date :: "string \<Rightarrow> int option"

subsection \<open>Configuration\<close>

definition ICON_CACHE_NAME :: string where
  "ICON_CACHE_NAME = ''miaowing-tab-icon-cache-v1''"

definition ICON_CACHE_DURATION :: int where
  "ICON_CACHE_DURATION = 30 * 24 * 60 * 60 * 1000"

definition REDIRECT_MAP_KEY :: string where
  "REDIRECT_MAP_KEY = ''icon-redirect-map''"

definition CACHED_ICON_URLS_KEY :: string where
  "CACHED_ICON_URLS_KEY = ''cached-online-icon-urls''"

subsection \<open>The operations of the platform\<close>

definition console_log :: "console_msg \<Rightarrow> world \<Rightarrow> world" where
  "console_log m w = w\<lparr>console := console w @ [m]\<rparr>"

text \<open>\<open>chrome.storage.local.get\<close> and \<open>set\<close>, for the two keys the worker uses.\<close>

definition storage_get_icon_urls :: "env \<Rightarrow> world \<Rightarrow> error + string list option" where
  "storage_get_icon_urls env w =
     (if storage_get_fails env CACHED_ICON_URLS_KEY then Inl StorageError
      else Inr (cached_online_icon_urls w))"

definition storage_get_redirect_map :: "env \<Rightarrow> world \<Rightarrow> error + (string \<rightharpoonup> string) option" where
  "storage_get_redirect_map env w =
     (if storage_get_fails env REDIRECT_MAP_KEY then Inl StorageError
      else Inr (icon_redirect_map w))"

definition storage_set_redirect_map :: "env \<Rightarrow> (string \<rightharpoonup> string) \<Rightarrow> world \<Rightarrow> error + world" where
  "storage_set_redirect_map env m w =
     (if storage_set_fails env then Inl StorageError
      else Inr (w\<lparr>icon_redirect_map := Some m\<rparr>))"

text \<open>
  \<open>caches.open(name)\<close> creates the named cache when it does not exist; the handle it
  returns is the name. \<open>cache.match\<close>, \<open>cache.delete\<close> and \<open>cache.put\<close> work on the
  named cache, by exact URL.
\<close>

definition caches_open :: "env \<Rightarrow> string \<Rightarrow> world \<Rightarrow> error + world" where
  "caches_open env name w =
     (if caches_open_fails env then Inl CacheError
      else Inr (case map_of (caches w) name of
                  None \<Rightarrow> w\<lparr>caches := caches w @ [(name, Map.empty)]\<rparr>
                | Some c \<Rightarrow> w))"

definition cache_update :: "string \<Rightarrow> (cache \<Rightarrow> cache) \<Rightarrow> (string \<times> cache) list \<Rightarrow> (string \<times> cache) list" where
  "cache_update name f cs = map (\<lambda>(n, c). if n = name then (n, f c) else (n, c)) cs"

definition cache_match :: "env \<Rightarrow> string \<Rightarrow> request \<Rightarrow> world \<Rightarrow> error + response option" where
  "cache_match env name req w =
     (if cache_match_fails env then Inl CacheError
      else Inr (case map_of (caches w) name of
                  None \<Rightarrow> None
                | Some c \<Rightarrow> c (request_url req)))"

definition cache_delete :: "env \<Rightarrow> string \<Rightarrow> request \<Rightarrow> world \<Rightarrow> error + world" where
  "cache_delete env name req w =
     (if cache_delete_fails env then Inl CacheError
      else Inr (w\<lparr>caches := cache_update name (\<lambda>c. c(request_url req := None)) (caches w)\<rparr>))"

definition cache_put :: "env \<Rightarrow> string \<Rightarrow> request \<Rightarrow> response \<Rightarrow> world \<Rightarrow> error + world" where
  "cache_put env name req resp w =
     (if cache_put_fails env then Inl CacheError
      else Inr (w\<lparr>caches := cache_update name (\<lambda>c. c(request_url req \<mapsto> resp)) (caches w)\<rparr>))"

text \<open>\<open>caches.match(request)\<close> searches every cache, in the order of their creation.\<close>

fun first_match :: "(string \<times> cache) list \<Rightarrow> string \<Rightarrow> response option" where
  "first_match [] u = None"
| "first_match ((n, c) # cs) u = (case c u of Some r \<Rightarrow> Some r | None \<Rightarrow> first_match cs u)"

definition caches_match :: "env \<Rightarrow> request \<Rightarrow> world \<Rightarrow> error + response option" where
  "caches_match env req w =
     (if caches_match_fails env then Inl CacheError
      else Inr (first_match (caches w) (request_url req)))"

text \<open>
  \<open>fetch\<close> resolves with a response or rejects; it never resolves with nothing, so the
  test \<open>!networkResponse\<close> of the handler cannot fire and has no branch here.
\<close>

definition fetch :: "env \<Rightarrow> fetch_call \<Rightarrow> world \<Rightarrow> (error + response) \<times> world" where
  "fetch env call w =
     (case network env call of
        None \<Rightarrow> (Inl NetworkError, w\<lparr>fetch_log := fetch_log w @ [call]\<rparr>)
      | Some r \<Rightarrow> (Inr r, w\<lparr>fetch_log := fetch_log w @ [call]\<rparr>))"

subsection \<open>The functions of fetch.js\<close>

definition getCachedIconUrls :: "env \<Rightarrow> world \<Rightarrow> string set \<times> world" where
  "getCachedIconUrls env w =
     (if \<not> chrome_storage env then ({}, console_log WarnNoStorageApi w)
      else case storage_get_icon_urls env w of
             Inl e \<Rightarrow> ({}, console_log (ErrorReadIconUrls e) w)
           | Inr cached \<Rightarrow> (case cached of Some xs \<Rightarrow> (set xs, w) | None \<Rightarrow> ({}, w)))"

definition getRedirectMap :: "env \<Rightarrow> world \<Rightarrow> (string \<rightharpoonup> string) \<times> world" where
  "getRedirectMap env w =
     (if \<not> chrome_storage env then (Map.empty, w)
      else case storage_get_redirect_map env w of
             Inl e \<Rightarrow> (Map.empty, console_log (ErrorReadRedirectMap e) w)
           | Inr v \<Rightarrow> (case v of Some m \<Rightarrow> (m, w) | None \<Rightarrow> (Map.empty, w)))"

definition saveRedirectMapping :: "env \<Rightarrow> string \<Rightarrow> string \<Rightarrow> world \<Rightarrow> world" where
  "saveRedirectMapping env originalUrl finalUrl w =
     (if originalUrl = finalUrl then w
      else if \<not> chrome_storage env then w
      else let (redirectMap, w1) = getRedirectMap env w;
               redirectMap' = redirectMap(originalUrl \<mapsto> finalUrl)
           in case storage_set_redirect_map env redirectMap' w1 of
                Inl e \<Rightarrow> console_log (ErrorSaveRedirectMap e) w1
              | Inr w2 \<Rightarrow> w2)"

definition resolveRedirectUrl :: "env \<Rightarrow> string \<Rightarrow> world \<Rightarrow> string \<times> world" where
  "resolveRedirectUrl env originalUrl w =
     (let (redirectMap, w1) = getRedirectMap env w
      in if truthy (redirectMap originalUrl)
         then (case redirectMap originalUrl of Some finalUrl \<Rightarrow> (finalUrl, w1) | None \<Rightarrow> (originalUrl, w1))
         else (originalUrl, w1))"

text \<open>
  The \<open>try\<close> of \<open>isIconRequest\<close> guards calls that cannot throw on a string:
  \<open>getCachedIconUrls\<close> catches its own errors.
\<close>

definition isIconRequest :: "env \<Rightarrow> string \<Rightarrow> world \<Rightarrow> bool \<times> world" where
  "isIconRequest env u w =
     (if str_includes u ''/assets/'' then (False, w)
      else let (cachedUrls, w1) = getCachedIconUrls env w
           in if u \<in> cachedUrls then (True, w1) else (False, w1))"

definition isCacheExpired :: "env \<Rightarrow> response option \<Rightarrow> bool" where
  "isCacheExpired env resp =
     (case resp of
        None \<Rightarrow> True
      | Some r \<Rightarrow>
         (case headers r of
            None \<Rightarrow> True
          | Some h \<Rightarrow>
             (let cacheControl = headers_get h ''Cache-Control'' in
              if truthy cacheControl \<and> (case cacheControl of Some cc \<Rightarrow> str_includes cc ''no-store'' | None \<Rightarrow> False)
              then True
              else let dateHeader = headers_get h ''Date'' in
                   if \<not> truthy dateHeader then True
                   else (case dateHeader of
                           None \<Rightarrow> True
                         | Some d \<Rightarrow>
                            (case parse_date env d of
                               None \<Rightarrow> False
                             | Some cachedDate \<Rightarrow>
                                (let cacheAge = now env - cachedDate
                                 in cacheAge > ICON_CACHE_DURATION))))))"

definition getIconFromCache :: "env \<Rightarrow> request \<Rightarrow> world \<Rightarrow> response option \<times> world" where
  "getIconFromCache env req w =
     (case caches_open env ICON_CACHE_NAME w of
        Inl e \<Rightarrow> (None, console_log (ErrorGetIconFromCache e) w)
      | Inr w1 \<Rightarrow>
         (case cache_match env ICON_CACHE_NAME req w1 of
            Inl e \<Rightarrow> (None, console_log (ErrorGetIconFromCache e) w1)
          | Inr None \<Rightarrow> (None, w1)
          | Inr (Some cachedResponse) \<Rightarrow>
             (if isCacheExpired env (Some cachedResponse)
              then (case cache_delete env ICON_CACHE_NAME req w1 of
                      Inl e \<Rightarrow> (None, console_log (ErrorGetIconFromCache e) w1)
                    | Inr w2 \<Rightarrow> (None, w2))
              else (Some cachedResponse, w1))))"

definition imageTypes :: "string list" where
  "imageTypes =
     [''image/png'', ''image/jpeg'', ''image/gif'', ''image/webp'', ''image/svg+xml'',
      ''image/x-icon'', ''image/vnd.microsoft.icon'', ''image/ico'']"

definition isImageResponse :: "response option \<Rightarrow> bool" where
  "isImageResponse resp =
     (case resp of
        None \<Rightarrow> False
      | Some r \<Rightarrow>
         (case headers r of
            None \<Rightarrow> False
          | Some h \<Rightarrow>
             (let contentType = headers_get h ''Content-Type'' in
              if \<not> truthy contentType then False
              else (case contentType of
                      None \<Rightarrow> False
                    | Some ct \<Rightarrow> list_ex (\<lambda>type. str_includes ct type) imageTypes))))"

definition content_type :: "response \<Rightarrow> string option" where
  \<comment> \<open>\<open>response.headers?.get('Content-Type')\<close>\<close>
  "content_type r = (case headers r of None \<Rightarrow> None | Some h \<Rightarrow> headers_get h ''Content-Type'')"

definition cacheIcon :: "env \<Rightarrow> request \<Rightarrow> response \<Rightarrow> world \<Rightarrow> world" where
  "cacheIcon env req resp w =
     (if \<not> isImageResponse (Some resp)
      then console_log (WarnNotImage (request_url req) (content_type resp)) w
      else case caches_open env ICON_CACHE_NAME w of
             Inl e \<Rightarrow> console_log (ErrorCacheIcon e) w
           | Inr w1 \<Rightarrow>
              (case cache_put env ICON_CACHE_NAME req resp w1 of
                 Inl e \<Rightarrow> console_log (ErrorCacheIcon e) w1
               | Inr w2 \<Rightarrow> w2))"

subsection \<open>The fetch event handler\<close>

text \<open>
  The response the handler builds when everything else has failed: the body the source
  passes to \<open>new Response\<close>, the header it sets, status 200 and no URL.
\<close>

definition placeholder :: response where
  "placeholder =
     \<lparr>url = [],
      status = 200,
      headers = Some [''content-type'' \<mapsto> ''image/png''],
      body = ''iVBORw0KGgoAAAANSUhEUgAAAAEAAAABCAYAAAAfFcSJAAAADUlEQVR42mNkYPhfDwAChAI9jU76/gAAAABJRU5ErkJggg==''\<rparr>"

text \<open>
  The body of the handler's \<open>try\<close>: \<open>Inl\<close> is the error thrown into the \<open>catch\<close>,
  with the world as it is at the throw.
\<close>

definition handle_try :: "env \<Rightarrow> string \<Rightarrow> request \<Rightarrow> world \<Rightarrow> (error + response) \<times> world" where
  "handle_try env originalUrl cacheKey w =
     (case getIconFromCache env cacheKey w of
        (Some cachedResponse, w1) \<Rightarrow> (Inr cachedResponse, w1)
      | (None, w1) \<Rightarrow>
         (case fetch env (FetchFollow originalUrl) w1 of
            (Inl fetchError, w2) \<Rightarrow>
              (Inl fetchError, console_log (ErrorFetchFailed originalUrl fetchError) w2)
          | (Inr networkResponse, w2) \<Rightarrow>
              (let w3 =
                 (if url networkResponse \<noteq> [] \<and> url networkResponse \<noteq> originalUrl
                  then (let w' = saveRedirectMapping env originalUrl (url networkResponse) w2;
                            finalCacheKey = Request (url networkResponse)
                        in if 200 \<le> status networkResponse \<and> status networkResponse < 400
                           then cacheIcon env finalCacheKey networkResponse w'
                           else w')
                  else (if 200 \<le> status networkResponse \<and> status networkResponse < 400
                        then cacheIcon env cacheKey networkResponse w2
                        else w2));
                   w4 =
                 (if \<not> ok networkResponse
                  then console_log (WarnIconStatus originalUrl (status networkResponse)) w3
                  else w3)
               in (Inr networkResponse, w4))))"

text \<open>The handler's \<open>catch\<close>. The lookup \<open>caches.match\<close> is not guarded: its error leaves the handler.\<close>

definition handle_catch :: "env \<Rightarrow> string \<Rightarrow> request \<Rightarrow> error \<Rightarrow> world \<Rightarrow> (error + response) \<times> world" where
  "handle_catch env originalUrl cacheKey e w =
     (let w1 = console_log (ErrorGetIconFailed originalUrl e) w
      in case caches_match env cacheKey w1 of
           Inl e' \<Rightarrow> (Inl e', w1)
         | Inr (Some cachedResponse) \<Rightarrow> (Inr cachedResponse, w1)
         | Inr None \<Rightarrow> (Inr placeholder, console_log (WarnPlaceholder originalUrl) w1))"

text \<open>
  The handler of the \<open>fetch\<close> event (the spec's \<open>handle\<close>): the response given to
  \<open>event.respondWith\<close>, or the error the handler's promise rejects with.
\<close>

definition handle :: "env \<Rightarrow> request \<Rightarrow> world \<Rightarrow> (error + response) \<times> world" where
  "handle env request w =
     (let (isIcon, w1) = isIconRequest env (request_url request) w
      in if \<not> isIcon then fetch env (FetchRequest request) w1
         else let originalUrl = request_url request;
                  (redirectUrl, w2) = resolveRedirectUrl env originalUrl w1;
                  shouldUseRedirectUrl = (redirectUrl \<noteq> originalUrl);
                  cacheKey = (if shouldUseRedirectUrl then Request redirectUrl else request)
              in case handle_try env originalUrl cacheKey w2 of
                   (Inl e, w3) \<Rightarrow> handle_catch env originalUrl cacheKey e w3
                 | (Inr r, w3) \<Rightarrow> (Inr r, w3))"

subsection \<open>What the stores hold\<close>

text \<open>The redirect mapping as stored, and the content of the icon cache (the Store).\<close>

definition redirect_mapping :: "world \<Rightarrow> (string \<rightharpoonup> string)" where
  "redirect_mapping w = (case icon_redirect_map w of None \<Rightarrow> Map.empty | Some m \<Rightarrow> m)"

definition icon_cache :: "world \<Rightarrow> cache" where
  "icon_cache w = (case map_of (caches w) ICON_CACHE_NAME of None \<Rightarrow> Map.empty | Some c \<Rightarrow> c)"

definition allow_list :: "world \<Rightarrow> string set" where
  "allow_list w = (case cached_online_icon_urls w of None \<Rightarrow> {} | Some xs \<Rightarrow> set xs)"

definition no_self_mapping :: "(string \<rightharpoonup> string) \<Rightarrow> bool" where
  "no_self_mapping m = (\<forall>k. m k \<noteq> Some k)"

definition no_empty_final :: "(string \<rightharpoonup> string) \<Rightarrow> bool" where
  "no_empty_final m = (\<forall>k. m k \<noteq> Some [])"

text \<open>
  The key under which the handler looks in the caches: the request built from the
  resolved URL (the source's local \<open>cacheKey\<close>; when nothing is resolved it is
  \<open>event.request\<close> itself, a request for the same URL).
\<close>

definition cacheKey :: "env \<Rightarrow> string \<Rightarrow> world \<Rightarrow> request" where
  "cacheKey env u w = Request (fst (resolveRedirectUrl env u w))"

subsection \<open>Example environments and worlds\<close>

definition url_A :: string where
  "url_A = ''https://example.com/favicon.ico''"

definition url_B :: string where
  "url_B = ''https://cdn.example.com/fav.ico''"

definition url_C :: string where
  "url_C = ''https://static.example.net/i.png''"

definition url_page :: string where
  "url_page = ''https://example.com/index.html''"

definition url_asset :: string where
  "url_asset = ''chrome-extension://abc/assets/logo.png''"

definition url_remote_asset :: string where
  "url_remote_asset = ''https://cdn.example.com/static/assets/favicon.ico''"

definition epoch :: string where
  "epoch = ''Thu, 01 Jan 1970 00:00:00 GMT''"

definition icon_response :: response where
  "icon_response =
     \<lparr>url = url_B, status = 200,
      headers = Some [''content-type'' \<mapsto> ''image/x-icon''], body = ''icon''\<rparr>"

definition not_found_response :: response where
  "not_found_response =
     \<lparr>url = url_B, status = 404,
      headers = Some [''content-type'' \<mapsto> ''text/html''], body = ''not found''\<rparr>"

definition disguised_response :: response where
  "disguised_response =
     \<lparr>url = url_A, status = 200,
      headers = Some [''content-type'' \<mapsto> ''text/html; x=image/png''], body = ''page''\<rparr>"

definition dated_response :: response where
  "dated_response =
     \<lparr>url = url_A, status = 200,
      headers = Some [''content-type'' \<mapsto> ''image/png'', ''date'' \<mapsto> epoch], body = ''old icon''\<rparr>"

definition page_response :: response where
  "page_response =
     \<lparr>url = url_page, status = 200,
      headers = Some [''content-type'' \<mapsto> ''text/html''], body = ''page''\<rparr>"

text \<open>An environment in which every operation works, with a given network and clock.\<close>

definition env_working :: "(fetch_call \<Rightarrow> response option) \<Rightarrow> int \<Rightarrow> env" where
  "env_working net t =
     \<lparr>chrome_storage = True,
      storage_get_fails = (\<lambda>k. False),
      storage_set_fails = False,
      caches_open_fails = False,
      cache_match_fails = False,
      cache_delete_fails = False,
      cache_put_fails = False,
      caches_match_fails = False,
      network = net,
      now = t,
      parse_date = (\<lambda>s. if s = epoch then Some 0 else None)\<rparr>"

text \<open>
  An environment in which the read of the redirect mapping rejects and everything else
  works; the network answers the request for \<open>url_A\<close> from \<open>url_B\<close>.
\<close>

definition env_redirect_read_fails :: env where
  "env_redirect_read_fails =
     \<lparr>chrome_storage = True,
      storage_get_fails = (\<lambda>k. k = REDIRECT_MAP_KEY),
      storage_set_fails = False,
      caches_open_fails = False,
      cache_match_fails = False,
      cache_delete_fails = False,
      cache_put_fails = False,
      caches_match_fails = False,
      network = (\<lambda>call. if call = FetchFollow url_A then Some icon_response else None),
      now = 0,
      parse_date = (\<lambda>s. None)\<rparr>"

definition offline :: "fetch_call \<Rightarrow> response option" where
  "offline call = None"

definition net_of :: "string \<Rightarrow> response \<Rightarrow> fetch_call \<Rightarrow> response option" where
  "net_of u r call = (if call = FetchFollow u \<or> call = FetchRequest (Request u) then Some r else None)"

definition world_with :: "string list \<Rightarrow> (string \<rightharpoonup> string) option \<Rightarrow> (string \<times> cache) list \<Rightarrow> world" where
  "world_with urls m cs =
     \<lparr>cached_online_icon_urls = Some urls, icon_redirect_map = m, caches = cs,
      fetch_log = [], console = []\<rparr>"

section \<open>Properties\<close>

subsection \<open>Strings\<close>

lemma starts_with_iff: "starts_with s t \<longleftrightarrow> (\<exists>ss. s = t @ ss)"
  by (induction s t rule: starts_with.induct) auto

lemma str_includes_iff: "str_includes s t \<longleftrightarrow> (\<exists>ps ss. s = ps @ t @ ss)"
proof (induction s)
  case Nil
  then show ?case by auto
next
  case (Cons x xs)
  show ?case
  proof
    assume "str_includes (x # xs) t"
    then consider "starts_with (x # xs) t" | "str_includes xs t" by auto
    then show "\<exists>ps ss. x # xs = ps @ t @ ss"
    proof cases
      case 1
      then obtain ss where "x # xs = t @ ss" by (auto simp: starts_with_iff)
      then have "x # xs = [] @ t @ ss" by simp
      then show ?thesis by blast
    next
      case 2
      then obtain ps ss where "xs = ps @ t @ ss" using Cons.IH by blast
      then have "x # xs = (x # ps) @ t @ ss" by simp
      then show ?thesis by blast
    qed
  next
    assume "\<exists>ps ss. x # xs = ps @ t @ ss"
    then obtain ps ss where e: "x # xs = ps @ t @ ss" by blast
    show "str_includes (x # xs) t"
    proof (cases ps)
      case Nil
      with e have "starts_with (x # xs) t" by (auto simp: starts_with_iff)
      then show ?thesis by simp
    next
      case (Cons p ps')
      with e have "xs = ps' @ t @ ss" by simp
      then have "str_includes xs t" using Cons.IH by blast
      then show ?thesis by simp
    qed
  qed
qed

subsection \<open>What each function reads and leaves alone\<close>

lemma console_log_fields [simp]:
  "cached_online_icon_urls (console_log m w) = cached_online_icon_urls w"
  "icon_redirect_map (console_log m w) = icon_redirect_map w"
  "caches (console_log m w) = caches w"
  "fetch_log (console_log m w) = fetch_log w"
  "console (console_log m w) = console w @ [m]"
  by (simp_all add: console_log_def)

lemma getCachedIconUrls_fst:
  "fst (getCachedIconUrls env w) =
     (if chrome_storage env \<and> \<not> storage_get_fails env CACHED_ICON_URLS_KEY then allow_list w else {})"
  by (simp add: getCachedIconUrls_def storage_get_icon_urls_def allow_list_def split: option.splits)

lemma getCachedIconUrls_frame [simp]:
  "cached_online_icon_urls (snd (getCachedIconUrls env w)) = cached_online_icon_urls w"
  "icon_redirect_map (snd (getCachedIconUrls env w)) = icon_redirect_map w"
  "caches (snd (getCachedIconUrls env w)) = caches w"
  "fetch_log (snd (getCachedIconUrls env w)) = fetch_log w"
  by (simp_all add: getCachedIconUrls_def storage_get_icon_urls_def split: option.splits)

lemma isIconRequest_fst:
  "fst (isIconRequest env u w) =
     (\<not> str_includes u ''/assets/'' \<and> chrome_storage env \<and>
      \<not> storage_get_fails env CACHED_ICON_URLS_KEY \<and> u \<in> allow_list w)"
  by (auto simp: isIconRequest_def split_beta getCachedIconUrls_fst)

lemma isIconRequest_frame [simp]:
  "cached_online_icon_urls (snd (isIconRequest env u w)) = cached_online_icon_urls w"
  "icon_redirect_map (snd (isIconRequest env u w)) = icon_redirect_map w"
  "caches (snd (isIconRequest env u w)) = caches w"
  "fetch_log (snd (isIconRequest env u w)) = fetch_log w"
  by (simp_all add: isIconRequest_def split_beta)

lemma getRedirectMap_fst:
  "fst (getRedirectMap env w) =
     (if chrome_storage env \<and> \<not> storage_get_fails env REDIRECT_MAP_KEY then redirect_mapping w else Map.empty)"
  by (simp add: getRedirectMap_def storage_get_redirect_map_def redirect_mapping_def split: option.splits)

lemma getRedirectMap_frame [simp]:
  "cached_online_icon_urls (snd (getRedirectMap env w)) = cached_online_icon_urls w"
  "icon_redirect_map (snd (getRedirectMap env w)) = icon_redirect_map w"
  "caches (snd (getRedirectMap env w)) = caches w"
  "fetch_log (snd (getRedirectMap env w)) = fetch_log w"
  by (simp_all add: getRedirectMap_def storage_get_redirect_map_def split: option.splits)

lemma resolveRedirectUrl_fst:
  "fst (resolveRedirectUrl env u w) =
     (case fst (getRedirectMap env w) u of
        None \<Rightarrow> u
      | Some f \<Rightarrow> if f = [] then u else f)"
  by (simp add: resolveRedirectUrl_def truthy_def split_beta split: option.splits)

lemma resolveRedirectUrl_frame [simp]:
  "cached_online_icon_urls (snd (resolveRedirectUrl env u w)) = cached_online_icon_urls w"
  "icon_redirect_map (snd (resolveRedirectUrl env u w)) = icon_redirect_map w"
  "caches (snd (resolveRedirectUrl env u w)) = caches w"
  "fetch_log (snd (resolveRedirectUrl env u w)) = fetch_log w"
  by (simp_all add: resolveRedirectUrl_def split_beta split: option.splits)

lemma saveRedirectMapping_map:
  "icon_redirect_map (saveRedirectMapping env a b w) =
     (if a = b \<or> \<not> chrome_storage env \<or> storage_set_fails env then icon_redirect_map w
      else Some ((if storage_get_fails env REDIRECT_MAP_KEY then Map.empty else redirect_mapping w)(a \<mapsto> b)))"
  by (auto simp: saveRedirectMapping_def storage_set_redirect_map_def split_beta getRedirectMap_fst)

lemma saveRedirectMapping_frame [simp]:
  "cached_online_icon_urls (saveRedirectMapping env a b w) = cached_online_icon_urls w"
  "caches (saveRedirectMapping env a b w) = caches w"
  "fetch_log (saveRedirectMapping env a b w) = fetch_log w"
  by (simp_all add: saveRedirectMapping_def storage_set_redirect_map_def split_beta)

lemma fetch_simps [simp]:
  "fst (fetch env call w) = (case network env call of None \<Rightarrow> Inl NetworkError | Some r \<Rightarrow> Inr r)"
  "cached_online_icon_urls (snd (fetch env call w)) = cached_online_icon_urls w"
  "icon_redirect_map (snd (fetch env call w)) = icon_redirect_map w"
  "caches (snd (fetch env call w)) = caches w"
  "fetch_log (snd (fetch env call w)) = fetch_log w @ [call]"
  "console (snd (fetch env call w)) = console w"
  by (simp_all add: fetch_def split: option.splits)

lemma getIconFromCache_frame [simp]:
  "cached_online_icon_urls (snd (getIconFromCache env req w)) = cached_online_icon_urls w"
  "icon_redirect_map (snd (getIconFromCache env req w)) = icon_redirect_map w"
  "fetch_log (snd (getIconFromCache env req w)) = fetch_log w"
  by (auto simp: getIconFromCache_def caches_open_def cache_match_def cache_delete_def
      split: option.splits sum.splits)

lemma cacheIcon_frame [simp]:
  "cached_online_icon_urls (cacheIcon env req r w) = cached_online_icon_urls w"
  "icon_redirect_map (cacheIcon env req r w) = icon_redirect_map w"
  "fetch_log (cacheIcon env req r w) = fetch_log w"
  by (auto simp: cacheIcon_def caches_open_def cache_put_def split: option.splits sum.splits)



lemma resolveRedirectUrl_cong:
  "icon_redirect_map w = icon_redirect_map w' \<Longrightarrow>
   fst (resolveRedirectUrl env u w) = fst (resolveRedirectUrl env u w')"
  by (simp add: resolveRedirectUrl_fst getRedirectMap_fst redirect_mapping_def)

lemma getIconFromCache_cong:
  "caches w = caches w' \<Longrightarrow>
   fst (getIconFromCache env key w) = fst (getIconFromCache env key w') \<and>
   caches (snd (getIconFromCache env key w)) = caches (snd (getIconFromCache env key w'))"
  by (simp add: getIconFromCache_def caches_open_def cache_match_def cache_delete_def
      split: option.splits)


lemma request_collapse [simp]: "(if r \<noteq> u then Request r else Request u) = Request r"
  by simp

lemma handle_passthrough:
  "\<not> fst (isIconRequest env u w) \<Longrightarrow>
   handle env (Request u) w = fetch env (FetchRequest (Request u)) (snd (isIconRequest env u w))"
  by (simp add: handle_def split_beta)

lemma handle_classified:
  assumes "fst (isIconRequest env u w)"
  shows "handle env (Request u) w =
     (let w2 = snd (resolveRedirectUrl env u (snd (isIconRequest env u w)));
          key = Request (fst (resolveRedirectUrl env u w))
      in case fst (handle_try env u key w2) of
           Inl e \<Rightarrow> handle_catch env u key e (snd (handle_try env u key w2))
         | Inr r \<Rightarrow> (Inr r, snd (handle_try env u key w2)))"
proof -
  have "fst (resolveRedirectUrl env u (snd (isIconRequest env u w)))
        = fst (resolveRedirectUrl env u w)"
    by (rule resolveRedirectUrl_cong) simp
  then show ?thesis
    using assms
    by (simp add: handle_def split_beta Let_def cong: if_cong sum.case_cong)
qed

lemma handle_try_hit:
  "fst (getIconFromCache env key w) = Some r \<Longrightarrow>
   handle_try env u key w = (Inr r, snd (getIconFromCache env key w))"
  by (simp add: handle_try_def split_beta)

lemma handle_try_transport_failure:
  "fst (getIconFromCache env key w) = None \<Longrightarrow> network env (FetchFollow u) = None \<Longrightarrow>
   handle_try env u key w =
     (Inl NetworkError,
      console_log (ErrorFetchFailed u NetworkError)
        (snd (fetch env (FetchFollow u) (snd (getIconFromCache env key w)))))"
  by (simp add: handle_try_def split_beta fetch_def)

lemma handle_try_response:
  "fst (getIconFromCache env key w) = None \<Longrightarrow> network env (FetchFollow u) = Some r \<Longrightarrow>
   handle_try env u key w =
     (Inr r,
      (let w2 = snd (fetch env (FetchFollow u) (snd (getIconFromCache env key w)));
           w3 = (if url r \<noteq> [] \<and> url r \<noteq> u
                 then (let w' = saveRedirectMapping env u (url r) w2
                       in if 200 \<le> status r \<and> status r < 400
                          then cacheIcon env (Request (url r)) r w' else w')
                 else (if 200 \<le> status r \<and> status r < 400
                       then cacheIcon env key r w2 else w2))
       in if \<not> ok r then console_log (WarnIconStatus u (status r)) w3 else w3))"
  by (simp add: handle_try_def split_beta fetch_def Let_def)


lemma cacheIcon_cong:
  "caches w = caches w' \<Longrightarrow> caches (cacheIcon env key r w) = caches (cacheIcon env key r w')"
  by (simp add: cacheIcon_def caches_open_def cache_put_def split: option.splits)

lemma handle_try_at:
  assumes "caches w2 = caches w" "fetch_log w2 = fetch_log w" "icon_redirect_map w2 = icon_redirect_map w"
  shows "fst (handle_try env u key w2) =
           (case fst (getIconFromCache env key w) of
              Some r \<Rightarrow> Inr r
            | None \<Rightarrow> (case network env (FetchFollow u) of None \<Rightarrow> Inl NetworkError | Some r \<Rightarrow> Inr r))" (is ?t1)
    and "fetch_log (snd (handle_try env u key w2)) =
           fetch_log w @ (case fst (getIconFromCache env key w) of Some r \<Rightarrow> [] | None \<Rightarrow> [FetchFollow u])" (is ?t2)
    and "icon_redirect_map (snd (handle_try env u key w2)) =
           (case fst (getIconFromCache env key w) of
              Some r \<Rightarrow> icon_redirect_map w
            | None \<Rightarrow>
               (case network env (FetchFollow u) of
                  None \<Rightarrow> icon_redirect_map w
                | Some r \<Rightarrow>
                   if url r \<noteq> [] \<and> url r \<noteq> u
                   then icon_redirect_map (saveRedirectMapping env u (url r) w)
                   else icon_redirect_map w))" (is ?t3)
    and "caches (snd (handle_try env u key w2)) =
           (case fst (getIconFromCache env key w) of
              Some r \<Rightarrow> caches (snd (getIconFromCache env key w))
            | None \<Rightarrow>
               (case network env (FetchFollow u) of
                  None \<Rightarrow> caches (snd (getIconFromCache env key w))
                | Some r \<Rightarrow>
                   if 200 \<le> status r \<and> status r < 400
                   then caches (cacheIcon env (if url r \<noteq> [] \<and> url r \<noteq> u then Request (url r) else key) r
                                  (snd (getIconFromCache env key w)))
                   else caches (snd (getIconFromCache env key w))))" (is ?t4)
proof -
  have g: "fst (getIconFromCache env key w2) = fst (getIconFromCache env key w)"
    "caches (snd (getIconFromCache env key w2)) = caches (snd (getIconFromCache env key w))"
    using getIconFromCache_cong [OF assms(1), of env key] by simp_all
  have c: "\<And>k r. caches (cacheIcon env k r (snd (getIconFromCache env key w2))) =
             caches (cacheIcon env k r (snd (getIconFromCache env key w)))"
    by (rule cacheIcon_cong) (rule g(2))
  have c': "\<And>k r a b. caches (cacheIcon env k r (saveRedirectMapping env a b (snd (fetch env (FetchFollow u) (snd (getIconFromCache env key w2)))))) =
             caches (cacheIcon env k r (snd (getIconFromCache env key w)))"
    by (rule cacheIcon_cong) (simp add: g(2))
  have c'': "\<And>k r. caches (cacheIcon env k r (snd (fetch env (FetchFollow u) (snd (getIconFromCache env key w2))))) =
             caches (cacheIcon env k r (snd (getIconFromCache env key w)))"
    by (rule cacheIcon_cong) (simp add: g(2))
  consider (hit) r where "fst (getIconFromCache env key w) = Some r"
    | (failure) "fst (getIconFromCache env key w) = None" "network env (FetchFollow u) = None"
    | (response) r where "fst (getIconFromCache env key w) = None" "network env (FetchFollow u) = Some r"
    by (cases "fst (getIconFromCache env key w)"; cases "network env (FetchFollow u)") auto
  then have "?t1 \<and> ?t2 \<and> ?t3 \<and> ?t4"
  proof (cases)
    case hit
    then have "handle_try env u key w2 = (Inr r, snd (getIconFromCache env key w2))"
      using g(1) by (simp add: handle_try_hit)
    then show ?thesis using hit g assms by simp
  next
    case failure
    then have "handle_try env u key w2 =
      (Inl NetworkError, console_log (ErrorFetchFailed u NetworkError)
        (snd (fetch env (FetchFollow u) (snd (getIconFromCache env key w2)))))"
      using g(1) by (simp add: handle_try_transport_failure)
    then show ?thesis using failure g assms by simp
  next
    case response
    then have h: "fst (getIconFromCache env key w2) = None" using g(1) by simp
    have ?t1 using response by (simp add: handle_try_response [OF h response(2)])
    moreover have ?t2 using response assms by (simp add: handle_try_response [OF h response(2)] Let_def)
    moreover have ?t3 using response assms
      by (simp add: handle_try_response [OF h response(2)] Let_def saveRedirectMapping_map redirect_mapping_def)
    moreover have ?t4 using response assms g
      by (simp add: handle_try_response [OF h response(2)] Let_def c' c'')
    ultimately show ?thesis by blast
  qed
  then show ?t1 ?t2 ?t3 ?t4 by blast+
qed


lemma handle_try_allow_list [simp]:
  "cached_online_icon_urls (snd (handle_try env u key w)) = cached_online_icon_urls w"
  by (cases "fst (getIconFromCache env key w)"; cases "network env (FetchFollow u)")
     (simp_all add: handle_try_hit handle_try_transport_failure handle_try_response Let_def)

lemma handle_catch_fst:
  "fst (handle_catch env u key e w) =
     (if caches_match_fails env then Inl CacheError
      else Inr (case first_match (caches w) (request_url key) of Some r \<Rightarrow> r | None \<Rightarrow> placeholder))"
  by (simp add: handle_catch_def caches_match_def Let_def split: option.splits)

lemma handle_catch_frame [simp]:
  "cached_online_icon_urls (snd (handle_catch env u key e w)) = cached_online_icon_urls w"
  "icon_redirect_map (snd (handle_catch env u key e w)) = icon_redirect_map w"
  "caches (snd (handle_catch env u key e w)) = caches w"
  "fetch_log (snd (handle_catch env u key e w)) = fetch_log w"
  by (simp_all add: handle_catch_def caches_match_def Let_def split: option.splits sum.splits)

lemma handle_at:
  shows "fst (handle env (Request u) w) =
     (if \<not> fst (isIconRequest env u w)
      then (case network env (FetchRequest (Request u)) of None \<Rightarrow> Inl NetworkError | Some r \<Rightarrow> Inr r)
      else case fst (getIconFromCache env (cacheKey env u w) w) of
             Some r \<Rightarrow> Inr r
           | None \<Rightarrow>
              (case network env (FetchFollow u) of
                 Some r \<Rightarrow> Inr r
               | None \<Rightarrow>
                  if caches_match_fails env then Inl CacheError
                  else Inr (case first_match (caches (snd (getIconFromCache env (cacheKey env u w) w))) (request_url (cacheKey env u w)) of
                              Some r \<Rightarrow> r
                            | None \<Rightarrow> placeholder)))" (is ?t1)
    and "fetch_log (snd (handle env (Request u) w)) =
     fetch_log w @
       (if \<not> fst (isIconRequest env u w) then [FetchRequest (Request u)]
        else case fst (getIconFromCache env (cacheKey env u w) w) of Some r \<Rightarrow> [] | None \<Rightarrow> [FetchFollow u])" (is ?t2)
    and "icon_redirect_map (snd (handle env (Request u) w)) =
     (if \<not> fst (isIconRequest env u w) then icon_redirect_map w
      else case fst (getIconFromCache env (cacheKey env u w) w) of
             Some r \<Rightarrow> icon_redirect_map w
           | None \<Rightarrow>
              (case network env (FetchFollow u) of
                 None \<Rightarrow> icon_redirect_map w
               | Some r \<Rightarrow>
                  if url r \<noteq> [] \<and> url r \<noteq> u
                  then icon_redirect_map (saveRedirectMapping env u (url r) w)
                  else icon_redirect_map w))" (is ?t3)
    and "caches (snd (handle env (Request u) w)) =
     (if \<not> fst (isIconRequest env u w) then caches w
      else case fst (getIconFromCache env (cacheKey env u w) w) of
             Some r \<Rightarrow> caches (snd (getIconFromCache env (cacheKey env u w) w))
           | None \<Rightarrow>
              (case network env (FetchFollow u) of
                 None \<Rightarrow> caches (snd (getIconFromCache env (cacheKey env u w) w))
               | Some r \<Rightarrow>
                  if 200 \<le> status r \<and> status r < 400
                  then caches (cacheIcon env
                                 (if url r \<noteq> [] \<and> url r \<noteq> u then Request (url r) else cacheKey env u w)
                                 r (snd (getIconFromCache env (cacheKey env u w) w)))
                  else caches (snd (getIconFromCache env (cacheKey env u w) w))))" (is ?t4)
    and "cached_online_icon_urls (snd (handle env (Request u) w)) = cached_online_icon_urls w" (is ?t5)
proof -
  let ?res = "fst (resolveRedirectUrl env u w)"
  let ?w2 = "snd (resolveRedirectUrl env u (snd (isIconRequest env u w)))"
  let ?t = "handle_try env u (Request ?res) ?w2"
  note at = handle_try_at [of ?w2 w env u "Request ?res", simplified]
  have "?t1 \<and> ?t2 \<and> ?t3 \<and> ?t4 \<and> ?t5"
  proof (cases "fst (isIconRequest env u w)")
    case False
    then show ?thesis by (simp add: handle_passthrough)
  next
    case True
    have h: "handle env (Request u) w =
       (case fst ?t of Inl e \<Rightarrow> handle_catch env u (Request ?res) e (snd ?t)
                     | Inr r \<Rightarrow> (Inr r, snd ?t))"
      using handle_classified [OF True] by (simp add: Let_def)
    show ?thesis
    proof (cases "fst ?t")
      case (Inl e)
      then have n: "fst (getIconFromCache env (Request ?res) w) = None" "network env (FetchFollow u) = None"
        using at(1) by (auto split: option.splits)
      have "handle env (Request u) w = handle_catch env u (Request ?res) e (snd ?t)"
        using h Inl by simp
      then show ?thesis using True n at by (simp add: handle_catch_fst cacheKey_def)
    next
      case (Inr r)
      then have "handle env (Request u) w = (Inr r, snd ?t)" using h by simp
      then show ?thesis using True Inr at by (auto simp: cacheKey_def split: option.splits)
    qed
  qed
  then show ?t1 ?t2 ?t3 ?t4 ?t5 by blast+
qed


subsection \<open>The redirect mapping\<close>

lemma redirect_mapping_cong:
  "icon_redirect_map w = icon_redirect_map w' \<Longrightarrow> redirect_mapping w = redirect_mapping w'"
  by (simp add: redirect_mapping_def)

lemma saveRedirectMapping_mapping:
  "redirect_mapping (saveRedirectMapping env a b w) =
     (if a = b \<or> \<not> chrome_storage env \<or> storage_set_fails env then redirect_mapping w
      else (if storage_get_fails env REDIRECT_MAP_KEY then Map.empty else redirect_mapping w)(a \<mapsto> b))"
  by (simp add: redirect_mapping_def saveRedirectMapping_map)

lemma saveRedirectMapping_no_self:
  "no_self_mapping (redirect_mapping w) \<Longrightarrow>
   no_self_mapping (redirect_mapping (saveRedirectMapping env a b w))"
  by (auto simp: saveRedirectMapping_mapping no_self_mapping_def)

lemma handle_redirect_mapping:
  "redirect_mapping (snd (handle env (Request u) w)) = redirect_mapping w \<or>
   (\<exists>r. network env (FetchFollow u) = Some r \<and> url r \<noteq> [] \<and> url r \<noteq> u \<and>
        redirect_mapping (snd (handle env (Request u) w)) =
        redirect_mapping (saveRedirectMapping env u (url r) w))"
  using handle_at(3) [of env u w]
  by (auto simp: redirect_mapping_def split: option.splits if_splits)

text \<open>
  The handler records a final URL only when it is not empty, so a mapping whose final
  URLs are all non-empty stays so.
\<close>

lemma saveRedirectMapping_no_empty_final:
  "no_empty_final (redirect_mapping w) \<Longrightarrow> b \<noteq> [] \<Longrightarrow>
   no_empty_final (redirect_mapping (saveRedirectMapping env a b w))"
  by (auto simp: saveRedirectMapping_mapping no_empty_final_def split: if_splits)

lemma handle_no_empty_final:
  assumes "no_empty_final (redirect_mapping w)"
  shows "no_empty_final (redirect_mapping (snd (handle env req w)))"
proof -
  obtain u where req: "req = Request u" by (cases req)
  from handle_redirect_mapping [of env u w]
  have "no_empty_final (redirect_mapping (snd (handle env (Request u) w)))"
  proof (elim disjE exE conjE)
    assume "redirect_mapping (snd (handle env (Request u) w)) = redirect_mapping w"
    then show ?thesis using assms by simp
  next
    fix r
    assume n: "url r \<noteq> []"
      and e: "redirect_mapping (snd (handle env (Request u) w)) =
              redirect_mapping (saveRedirectMapping env u (url r) w)"
    show ?thesis
      unfolding e using assms n by (rule saveRedirectMapping_no_empty_final)
  qed
  then show ?thesis by (simp add: req)
qed

text \<open>
  When the read of the mapping rejects and the write succeeds, \<open>getRedirectMap\<close> has
  answered with an empty mapping and the write replaces the stored mapping by one entry.
\<close>

lemma saveRedirectMapping_after_failed_read:
  assumes "originalUrl \<noteq> finalUrl"
    and "chrome_storage env"
    and "storage_get_fails env REDIRECT_MAP_KEY"
    and "\<not> storage_set_fails env"
  shows "redirect_mapping (saveRedirectMapping env originalUrl finalUrl w) = [originalUrl \<mapsto> finalUrl]"
  using assms by (simp add: saveRedirectMapping_mapping)

subsection \<open>The handler after a response\<close>

lemma handle_try_warns:
  "fst (getIconFromCache env key w) = None \<Longrightarrow> network env (FetchFollow u) = Some r \<Longrightarrow> \<not> ok r \<Longrightarrow>
   \<exists>before. console (snd (handle_try env u key w)) = before @ [WarnIconStatus u (status r)]"
  by (simp add: handle_try_response Let_def)

lemma handle_response:
  assumes "fst (isIconRequest env u w)"
    and "fst (getIconFromCache env (cacheKey env u w) w) = None"
    and "network env (FetchFollow u) = Some r"
  shows "handle env (Request u) w =
           (Inr r, snd (handle_try env u (cacheKey env u w)
                          (snd (resolveRedirectUrl env u (snd (isIconRequest env u w))))))"
    and "fst (getIconFromCache env (cacheKey env u w)
                (snd (resolveRedirectUrl env u (snd (isIconRequest env u w))))) = None"
proof -
  let ?w2 = "snd (resolveRedirectUrl env u (snd (isIconRequest env u w)))"
  have c: "caches ?w2 = caches w" by simp
  show m: "fst (getIconFromCache env (cacheKey env u w) ?w2) = None"
    using getIconFromCache_cong [OF c, of env "cacheKey env u w"] assms(2) by simp
  have "fst (handle_try env u (cacheKey env u w) ?w2) = Inr r"
    using handle_try_response [OF m assms(3)] by simp
  then show "handle env (Request u) w = (Inr r, snd (handle_try env u (cacheKey env u w) ?w2))"
    using handle_classified [OF assms(1)] by (simp add: Let_def cacheKey_def)
qed

subsection \<open>The icon cache\<close>

lemma placeholder_content_type: "content_type placeholder = Some ''image/png''"
  by (simp add: content_type_def placeholder_def headers_get_def ascii_lower_def)

lemma map_of_cache_update:
  "map_of (cache_update name f cs) n = (if n = name then map_option f (map_of cs n) else map_of cs n)"
  by (induction cs) (auto simp: cache_update_def)

lemma icon_cache_cong: "caches w = caches w' \<Longrightarrow> icon_cache w = icon_cache w'"
  by (simp add: icon_cache_def)

lemma isImageResponse_iff:
  "isImageResponse (Some r) \<longleftrightarrow>
     (\<exists>ct t. content_type r = Some ct \<and> t \<in> set imageTypes \<and> str_includes ct t)"
proof -
  have e: "\<not> list_ex (str_includes []) imageTypes"
    by (simp add: imageTypes_def)
  show ?thesis
    using e
    by (cases "headers r")
       (auto simp: isImageResponse_def content_type_def truthy_def list_ex_iff Let_def
             split: option.splits)
qed

lemma icon_cache_getIconFromCache:
  "icon_cache (snd (getIconFromCache env key w)) k = Some e \<Longrightarrow> icon_cache w k = Some e"
  by (auto simp: getIconFromCache_def caches_open_def cache_match_def cache_delete_def
        icon_cache_def map_of_cache_update
      split: option.splits if_splits)

lemma icon_cache_cacheIcon:
  "icon_cache (cacheIcon env key r w) k = Some e \<Longrightarrow>
   icon_cache w k = Some e \<or> (e = r \<and> k = request_url key \<and> isImageResponse (Some r))"
  by (auto simp: cacheIcon_def caches_open_def cache_put_def icon_cache_def map_of_cache_update
      split: option.splits if_splits)

subsection \<open>Running the examples\<close>

lemmas run_defs =
  handle_def handle_try_def handle_catch_def isIconRequest_def getCachedIconUrls_def
  getRedirectMap_def saveRedirectMapping_def resolveRedirectUrl_def getIconFromCache_def
  cacheIcon_def isImageResponse_def isCacheExpired_def content_type_def cacheKey_def
  storage_get_icon_urls_def storage_get_redirect_map_def storage_set_redirect_map_def
  caches_open_def cache_match_def cache_delete_def cache_put_def cache_update_def
  caches_match_def fetch_def console_log_def headers_get_def ascii_lower_def truthy_def ok_def
  imageTypes_def ICON_CACHE_NAME_def ICON_CACHE_DURATION_def REDIRECT_MAP_KEY_def
  CACHED_ICON_URLS_KEY_def redirect_mapping_def icon_cache_def allow_list_def Let_def

lemmas example_defs =
  env_working_def offline_def net_of_def world_with_def url_A_def url_B_def url_C_def
  url_page_def url_asset_def url_remote_asset_def env_redirect_read_fails_def epoch_def icon_response_def not_found_response_def
  disguised_response_def dated_response_def page_response_def

section \<open>The claims\<close>

subsection \<open>Freshness\<close>

text \<open>
  Claim C2. \<open>isCacheExpired\<close> answers true exactly when the entry or its headers are
  missing, or the \<open>Cache-Control\<close> header contains \<open>no-store\<close>, or there is no \<open>Date\<close>
  header (to the source an empty value is no header), or the age, the clock minus the
  parsed date, is strictly more than 30 days in milliseconds. A date that does not parse
  gives no age and the entry is not expired. At exactly 30 days the entry is not
  expired; one millisecond later it is.
\<close>

theorem isCacheExpired_thirty_days:
  "(isCacheExpired env entry \<longleftrightarrow>
      entry = None \<or>
      (\<exists>r. entry = Some r \<and> headers r = None) \<or>
      (\<exists>r h cc. entry = Some r \<and> headers r = Some h \<and>
                headers_get h ''Cache-Control'' = Some cc \<and> str_includes cc ''no-store'') \<or>
      (\<exists>r h. entry = Some r \<and> headers r = Some h \<and>
             (headers_get h ''Date'' = None \<or> headers_get h ''Date'' = Some [])) \<or>
      (\<exists>r h d t. entry = Some r \<and> headers r = Some h \<and> headers_get h ''Date'' = Some d \<and>
                 parse_date env d = Some t \<and> now env - t > 30 * 24 * 60 * 60 * 1000)) \<and>
   (\<forall>r h d t. entry = Some r \<and> headers r = Some h \<and>
              headers_get h ''Cache-Control'' = None \<and>
              headers_get h ''Date'' = Some d \<and> d \<noteq> [] \<and> parse_date env d = Some t \<longrightarrow>
        (now env - t = 2592000000 \<longrightarrow> \<not> isCacheExpired env entry) \<and>
        (now env - t = 2592000001 \<longrightarrow> isCacheExpired env entry))"
proof (intro conjI allI impI)
  show "isCacheExpired env entry \<longleftrightarrow>
      entry = None \<or>
      (\<exists>r. entry = Some r \<and> headers r = None) \<or>
      (\<exists>r h cc. entry = Some r \<and> headers r = Some h \<and>
                headers_get h ''Cache-Control'' = Some cc \<and> str_includes cc ''no-store'') \<or>
      (\<exists>r h. entry = Some r \<and> headers r = Some h \<and>
             (headers_get h ''Date'' = None \<or> headers_get h ''Date'' = Some [])) \<or>
      (\<exists>r h d t. entry = Some r \<and> headers r = Some h \<and> headers_get h ''Date'' = Some d \<and>
                 parse_date env d = Some t \<and> now env - t > 30 * 24 * 60 * 60 * 1000)"
    by (auto simp: isCacheExpired_def truthy_def ICON_CACHE_DURATION_def Let_def
        split: option.splits)
next
  fix r h d t
  assume a: "entry = Some r \<and> headers r = Some h \<and> headers_get h ''Cache-Control'' = None \<and>
     headers_get h ''Date'' = Some d \<and> d \<noteq> [] \<and> parse_date env d = Some t"
  then have e: "isCacheExpired env entry \<longleftrightarrow> now env - t > 2592000000"
    by (simp add: isCacheExpired_def truthy_def ICON_CACHE_DURATION_def Let_def)
  { assume "now env - t = 2592000000"
    then show "\<not> isCacheExpired env entry" using e by simp }
  { assume "now env - t = 2592000001"
    then show "isCacheExpired env entry" using e by simp }
qed

theorem isCacheExpired_thirty_days_witness:
  "\<not> isCacheExpired (env_working offline 2592000000) (Some dated_response) \<and>
   isCacheExpired (env_working offline 2592000001) (Some dated_response) \<and>
   headers_get [''content-type'' \<mapsto> ''image/png'', ''date'' \<mapsto> epoch] ''Date'' = Some epoch \<and>
   parse_date (env_working offline 2592000000) epoch = Some 0"
  using isCacheExpired_thirty_days [of "env_working offline 2592000000" "Some dated_response",
          THEN conjunct2, rule_format,
          of dated_response "[''content-type'' \<mapsto> ''image/png'', ''date'' \<mapsto> epoch]" epoch 0]
        isCacheExpired_thirty_days [of "env_working offline 2592000001" "Some dated_response",
          THEN conjunct2, rule_format,
          of dated_response "[''content-type'' \<mapsto> ''image/png'', ''date'' \<mapsto> epoch]" epoch 0]
  by (simp add: env_working_def dated_response_def headers_get_def ascii_lower_def epoch_def)


subsection \<open>The redirect resolver\<close>

text \<open>
  Claim C4. \<open>resolveRedirectUrl\<close> looks the original URL up once: when the mapping read
  from storage has a final URL for it (an empty one counts as none), it returns that final
  URL, otherwise the original URL. When storage cannot be read the mapping read is empty.
  It does not look the result up again: with \<open>A \<mapsto> B\<close> and \<open>B \<mapsto> C\<close> recorded, the
  answer for \<open>A\<close> is \<open>B\<close>. The stored mapping is left as it was.
\<close>

theorem resolveRedirectUrl_single_level:
  "fst (resolveRedirectUrl env originalUrl w) =
     (if chrome_storage env \<and> \<not> storage_get_fails env REDIRECT_MAP_KEY
      then (case redirect_mapping w originalUrl of
              None \<Rightarrow> originalUrl
            | Some finalUrl \<Rightarrow> if finalUrl = [] then originalUrl else finalUrl)
      else originalUrl) \<and>
   (chrome_storage env \<and> \<not> storage_get_fails env REDIRECT_MAP_KEY \<and>
    redirect_mapping w originalUrl = Some finalUrl \<and> finalUrl \<noteq> [] \<and>
    redirect_mapping w finalUrl = Some further \<longrightarrow>
      fst (resolveRedirectUrl env originalUrl w) = finalUrl) \<and>
   icon_redirect_map (snd (resolveRedirectUrl env originalUrl w)) = icon_redirect_map w"
  by (simp add: resolveRedirectUrl_fst getRedirectMap_fst)

theorem resolveRedirectUrl_single_level_witness:
  "redirect_mapping (world_with [url_A] (Some [url_A \<mapsto> url_B, url_B \<mapsto> url_C]) []) url_A = Some url_B \<and>
   redirect_mapping (world_with [url_A] (Some [url_A \<mapsto> url_B, url_B \<mapsto> url_C]) []) url_B = Some url_C \<and>
   url_B \<noteq> [] \<and> url_B \<noteq> url_C \<and>
   fst (resolveRedirectUrl (env_working offline 0) url_A
          (world_with [url_A] (Some [url_A \<mapsto> url_B, url_B \<mapsto> url_C]) [])) = url_B \<and>
   fst (resolveRedirectUrl (env_working offline 0) url_C
          (world_with [url_A] (Some [url_A \<mapsto> url_B, url_B \<mapsto> url_C]) [])) = url_C"
  using resolveRedirectUrl_single_level [of "env_working offline 0" url_A
          "world_with [url_A] (Some [url_A \<mapsto> url_B, url_B \<mapsto> url_C]) []" url_B url_C]
        resolveRedirectUrl_single_level [of "env_working offline 0" url_C
          "world_with [url_A] (Some [url_A \<mapsto> url_B, url_B \<mapsto> url_C]) []" url_B url_C]
  by (simp add: env_working_def world_with_def redirect_mapping_def url_A_def url_B_def url_C_def)

text \<open>
  Claim C5. \<open>saveRedirectMapping\<close> does nothing when the two URLs are equal. Otherwise,
  when storage is there and the write succeeds, the original URL maps to the new final
  URL afterwards, whatever it mapped to before. No operation introduces a mapping of a
  URL to itself: \<open>saveRedirectMapping\<close>, \<open>resolveRedirectUrl\<close> and the handler keep the
  stored mapping free of self-mappings, whatever fails.
\<close>

theorem saveRedirectMapping_last_write_wins:
  "saveRedirectMapping env originalUrl originalUrl w = w \<and>
   (originalUrl \<noteq> finalUrl \<and> chrome_storage env \<and> \<not> storage_set_fails env \<longrightarrow>
      redirect_mapping (saveRedirectMapping env originalUrl finalUrl w) originalUrl = Some finalUrl) \<and>
   (no_self_mapping (redirect_mapping w) \<longrightarrow>
      no_self_mapping (redirect_mapping (saveRedirectMapping env originalUrl finalUrl w)) \<and>
      no_self_mapping (redirect_mapping (snd (resolveRedirectUrl env originalUrl w))) \<and>
      no_self_mapping (redirect_mapping (snd (handle env req w))))"
proof (intro conjI impI)
  show "saveRedirectMapping env originalUrl originalUrl w = w"
    by (simp add: saveRedirectMapping_def)
  show "redirect_mapping (saveRedirectMapping env originalUrl finalUrl w) originalUrl = Some finalUrl"
    if "originalUrl \<noteq> finalUrl \<and> chrome_storage env \<and> \<not> storage_set_fails env"
    using that by (simp add: saveRedirectMapping_mapping)
  assume inv: "no_self_mapping (redirect_mapping w)"
  show "no_self_mapping (redirect_mapping (saveRedirectMapping env originalUrl finalUrl w))"
    using inv by (rule saveRedirectMapping_no_self)
  show "no_self_mapping (redirect_mapping (snd (resolveRedirectUrl env originalUrl w)))"
    using inv by (simp add: redirect_mapping_def)
  obtain u where req: "req = Request u" by (cases req)
  show "no_self_mapping (redirect_mapping (snd (handle env req w)))"
    using handle_redirect_mapping [of env u w] inv saveRedirectMapping_no_self [of w env u]
    unfolding req by auto
qed

theorem saveRedirectMapping_last_write_wins_witness:
  "url_A \<noteq> url_B \<and>
   redirect_mapping (world_with [] (Some [url_A \<mapsto> url_C]) []) url_A = Some url_C \<and>
   no_self_mapping (redirect_mapping (world_with [] (Some [url_A \<mapsto> url_C]) [])) \<and>
   redirect_mapping (saveRedirectMapping (env_working offline 0) url_A url_B
                      (world_with [] (Some [url_A \<mapsto> url_C]) [])) url_A = Some url_B \<and>
   no_self_mapping (redirect_mapping (saveRedirectMapping (env_working offline 0) url_A url_B
                      (world_with [] (Some [url_A \<mapsto> url_C]) [])))"
  using saveRedirectMapping_last_write_wins [of "env_working offline 0" url_A
          "world_with [] (Some [url_A \<mapsto> url_C]) []" url_B "Request url_A"]
  by (simp add: env_working_def world_with_def redirect_mapping_def no_self_mapping_def
      url_A_def url_B_def url_C_def)

text \<open>
  When \<open>saveRedirectMapping\<close> records \<open>A \<mapsto> B\<close> with \<open>A \<noteq> B\<close> and its read and its
  write of storage both succeed, \<open>A\<close> maps to \<open>B\<close> afterwards and every other key maps to
  what it mapped to before.
\<close>

lemma saveRedirectMapping_keeps_other_keys:
  assumes "originalUrl \<noteq> finalUrl"
    and "chrome_storage env"
    and "\<not> storage_get_fails env REDIRECT_MAP_KEY"
    and "\<not> storage_set_fails env"
  shows "redirect_mapping (saveRedirectMapping env originalUrl finalUrl w) originalUrl = Some finalUrl \<and>
         (\<forall>k. k \<noteq> originalUrl \<longrightarrow>
              redirect_mapping (saveRedirectMapping env originalUrl finalUrl w) k = redirect_mapping w k)"
  using assms by (simp add: saveRedirectMapping_mapping)

lemma saveRedirectMapping_keeps_other_keys_example:
  "url_A \<noteq> url_B \<and> chrome_storage (env_working offline 0) \<and>
   \<not> storage_get_fails (env_working offline 0) REDIRECT_MAP_KEY \<and>
   \<not> storage_set_fails (env_working offline 0) \<and>
   url_C \<noteq> url_A \<and>
   redirect_mapping (world_with [] (Some [url_C \<mapsto> url_B]) []) url_C = Some url_B \<and>
   redirect_mapping (saveRedirectMapping (env_working offline 0) url_A url_B
                      (world_with [] (Some [url_C \<mapsto> url_B]) [])) url_C = Some url_B \<and>
   redirect_mapping (saveRedirectMapping (env_working offline 0) url_A url_B
                      (world_with [] (Some [url_C \<mapsto> url_B]) [])) url_A = Some url_B"
proof -
  have h: "url_A \<noteq> url_B" "chrome_storage (env_working offline 0)"
    "\<not> storage_get_fails (env_working offline 0) REDIRECT_MAP_KEY"
    "\<not> storage_set_fails (env_working offline 0)"
    by (simp_all add: env_working_def url_A_def url_B_def)
  have c: "url_C \<noteq> url_A" by (simp add: url_A_def url_C_def)
  have "redirect_mapping (world_with [] (Some [url_C \<mapsto> url_B]) []) url_C = Some url_B"
    by (simp add: world_with_def redirect_mapping_def)
  then show ?thesis
    using h c saveRedirectMapping_keeps_other_keys [OF h, of "world_with [] (Some [url_C \<mapsto> url_B]) []"]
    by simp
qed

text \<open>
  Claim C10. A record that succeeds, \<open>saveRedirectMapping\<close> of \<open>A\<close> and \<open>B\<close> with
  \<open>A \<noteq> B\<close>, should change the entry for \<open>A\<close> only. The source reads the mapping
  through \<open>getRedirectMap\<close>, which answers a rejected read with an empty mapping, sets
  the one entry and writes the whole mapping back. So when the read rejects and the write
  succeeds, the record is persisted and every other entry is lost: with \<open>C \<mapsto> B\<close>
  stored, recording \<open>A \<mapsto> B\<close> leaves \<open>A \<mapsto> B\<close> alone in the store; the only trace is
  the read error on the console. The same happens when the handler records the redirect
  of a fetched icon.
\<close>

theorem saveRedirectMapping_drops_other_keys:
  "url_A \<noteq> url_B \<and> url_C \<noteq> url_A \<and>
   chrome_storage env_redirect_read_fails \<and>
   storage_get_fails env_redirect_read_fails REDIRECT_MAP_KEY \<and>
   \<not> storage_set_fails env_redirect_read_fails \<and>
   redirect_mapping (world_with [url_A] (Some [url_C \<mapsto> url_B]) []) url_C = Some url_B \<and>
   redirect_mapping
     (saveRedirectMapping env_redirect_read_fails url_A url_B
        (world_with [url_A] (Some [url_C \<mapsto> url_B]) [])) url_A = Some url_B \<and>
   redirect_mapping
     (saveRedirectMapping env_redirect_read_fails url_A url_B
        (world_with [url_A] (Some [url_C \<mapsto> url_B]) [])) url_C = None \<and>
   console
     (saveRedirectMapping env_redirect_read_fails url_A url_B
        (world_with [url_A] (Some [url_C \<mapsto> url_B]) [])) = [ErrorReadRedirectMap StorageError] \<and>
   fst (handle env_redirect_read_fails (Request url_A)
          (world_with [url_A] (Some [url_C \<mapsto> url_B]) [])) = Inr icon_response \<and>
   redirect_mapping
     (snd (handle env_redirect_read_fails (Request url_A)
             (world_with [url_A] (Some [url_C \<mapsto> url_B]) []))) url_A = Some url_B \<and>
   redirect_mapping
     (snd (handle env_redirect_read_fails (Request url_A)
             (world_with [url_A] (Some [url_C \<mapsto> url_B]) []))) url_C = None"
  by (simp add: run_defs example_defs)

subsection \<open>The entry classifier\<close>

text \<open>
  What \<open>isIconRequest\<close> computes. It answers false at once, touching nothing, for a
  URL that contains \<open>/assets/\<close> anywhere. For any other URL, when the allow-list can be
  read, it answers true exactly when the URL is in the stored allow-list, and leaves the
  world as it was. When the read of the allow-list rejects (or \<open>chrome.storage\<close> is
  missing) it answers false and no error leaves it. In every case the allow-list, the
  redirect mapping, the caches and the network are left alone; a failed read is reported
  on the console.
\<close>

lemma isIconRequest_classifies:
  "(str_includes u ''/assets/'' \<longrightarrow> isIconRequest env u w = (False, w)) \<and>
   (\<not> str_includes u ''/assets/'' \<and> chrome_storage env \<and>
    \<not> storage_get_fails env CACHED_ICON_URLS_KEY \<longrightarrow>
      fst (isIconRequest env u w) = (u \<in> allow_list w) \<and> snd (isIconRequest env u w) = w) \<and>
   (storage_get_fails env CACHED_ICON_URLS_KEY \<or> \<not> chrome_storage env \<longrightarrow>
      fst (isIconRequest env u w) = False) \<and>
   cached_online_icon_urls (snd (isIconRequest env u w)) = cached_online_icon_urls w \<and>
   icon_redirect_map (snd (isIconRequest env u w)) = icon_redirect_map w \<and>
   caches (snd (isIconRequest env u w)) = caches w \<and>
   fetch_log (snd (isIconRequest env u w)) = fetch_log w"
proof (intro conjI impI)
  show "isIconRequest env u w = (False, w)" if "str_includes u ''/assets/''"
    using that by (simp add: isIconRequest_def)
  assume r: "\<not> str_includes u ''/assets/'' \<and> chrome_storage env \<and>
    \<not> storage_get_fails env CACHED_ICON_URLS_KEY"
  show "fst (isIconRequest env u w) = (u \<in> allow_list w)"
    using r by (simp add: isIconRequest_fst)
  show "snd (isIconRequest env u w) = w"
    using r by (simp add: isIconRequest_def getCachedIconUrls_def storage_get_icon_urls_def
        split: option.splits)
next
  assume "storage_get_fails env CACHED_ICON_URLS_KEY \<or> \<not> chrome_storage env"
  then show "fst (isIconRequest env u w) = False"
    by (auto simp: isIconRequest_fst)
qed simp_all

lemma isIconRequest_classifies_example:
  "str_includes url_asset ''/assets/'' \<and>
   isIconRequest (env_working offline 0) url_asset (world_with [url_asset, url_A] None []) =
     (False, world_with [url_asset, url_A] None []) \<and>
   \<not> str_includes url_A ''/assets/'' \<and> url_A \<in> allow_list (world_with [url_asset, url_A] None []) \<and>
   fst (isIconRequest (env_working offline 0) url_A (world_with [url_asset, url_A] None [])) \<and>
   url_B \<notin> allow_list (world_with [url_asset, url_A] None []) \<and>
   \<not> fst (isIconRequest (env_working offline 0) url_B (world_with [url_asset, url_A] None [])) \<and>
   storage_get_fails ((env_working offline 0)\<lparr>storage_get_fails := (\<lambda>k. True)\<rparr>) CACHED_ICON_URLS_KEY \<and>
   \<not> fst (isIconRequest ((env_working offline 0)\<lparr>storage_get_fails := (\<lambda>k. True)\<rparr>) url_A
            (world_with [url_asset, url_A] None []))"
  using isIconRequest_classifies [of url_asset "env_working offline 0" "world_with [url_asset, url_A] None []"]
        isIconRequest_classifies [of url_A "env_working offline 0" "world_with [url_asset, url_A] None []"]
        isIconRequest_classifies [of url_B "env_working offline 0" "world_with [url_asset, url_A] None []"]
        isIconRequest_classifies [of url_A "(env_working offline 0)\<lparr>storage_get_fails := (\<lambda>k. True)\<rparr>"
           "world_with [url_asset, url_A] None []"]
  by (simp add: env_working_def world_with_def allow_list_def url_A_def url_B_def url_asset_def)

text \<open>
  Claim C9. \<open>isIconRequest\<close> should answer false for the URLs of local assets, those
  whose path starts with \<open>/assets/\<close> as the comment in the source says, and true for
  every other URL that is in the allow-list. The source tests \<open>url.includes('/assets/')\<close>:
  a remote icon whose URL has \<open>/assets/\<close> somewhere inside does not start with
  \<open>/assets/\<close>, is in the allow-list, the allow-list can be read, and still the answer is
  false; the handler then passes the request through and caches nothing.
\<close>

theorem isIconRequest_refuses_allow_listed_remote_url:
  "\<not> starts_with url_remote_asset ''/assets/'' \<and>
   str_includes url_remote_asset ''/assets/'' \<and>
   url_remote_asset \<in> allow_list (world_with [url_remote_asset] None []) \<and>
   chrome_storage (env_working (net_of url_remote_asset icon_response) 0) \<and>
   \<not> storage_get_fails (env_working (net_of url_remote_asset icon_response) 0) CACHED_ICON_URLS_KEY \<and>
   isIconRequest (env_working (net_of url_remote_asset icon_response) 0) url_remote_asset
     (world_with [url_remote_asset] None []) = (False, world_with [url_remote_asset] None []) \<and>
   handle (env_working (net_of url_remote_asset icon_response) 0) (Request url_remote_asset)
     (world_with [url_remote_asset] None []) =
   (Inr icon_response,
    \<lparr>cached_online_icon_urls = Some [url_remote_asset], icon_redirect_map = None, caches = [],
     fetch_log = [FetchRequest (Request url_remote_asset)], console = []\<rparr>)"
  by (simp add: run_defs example_defs)

subsection \<open>The fetch handler\<close>

text \<open>
  Claim C6. For a request whose URL is not in the allow-list the handler issues one
  fetch, \<open>fetch(event.request)\<close>, and no other; its outcome is the outcome of that fetch,
  unchanged; the caches, the redirect mapping and the allow-list are as before.
\<close>

theorem handle_passes_through:
  assumes "request_url req \<notin> allow_list w"
  shows "fst (handle env req w) =
           (case network env (FetchRequest req) of None \<Rightarrow> Inl NetworkError | Some r \<Rightarrow> Inr r) \<and>
         fetch_log (snd (handle env req w)) = fetch_log w @ [FetchRequest req] \<and>
         caches (snd (handle env req w)) = caches w \<and>
         icon_redirect_map (snd (handle env req w)) = icon_redirect_map w \<and>
         cached_online_icon_urls (snd (handle env req w)) = cached_online_icon_urls w"
proof -
  obtain u where req: "req = Request u" by (cases req)
  have "\<not> fst (isIconRequest env u w)"
    using assms by (simp add: req isIconRequest_fst)
  then show ?thesis
    unfolding req by (simp add: handle_passthrough)
qed

theorem handle_passes_through_witness:
  "request_url (Request url_page) \<notin> allow_list (world_with [url_A] None []) \<and>
   fst (handle (env_working (net_of url_page page_response) 0) (Request url_page)
          (world_with [url_A] None [])) = Inr page_response \<and>
   fetch_log (snd (handle (env_working (net_of url_page page_response) 0) (Request url_page)
          (world_with [url_A] None []))) = [FetchRequest (Request url_page)] \<and>
   caches (snd (handle (env_working (net_of url_page page_response) 0) (Request url_page)
          (world_with [url_A] None []))) = [] \<and>
   icon_redirect_map (snd (handle (env_working (net_of url_page page_response) 0) (Request url_page)
          (world_with [url_A] None []))) = None"
proof -
  have h: "request_url (Request url_page) \<notin> allow_list (world_with [url_A] None [])"
    by (simp add: allow_list_def world_with_def url_page_def url_A_def)
  show ?thesis
    using h handle_passes_through [OF h, of "env_working (net_of url_page page_response) 0"]
    by (simp add: env_working_def net_of_def world_with_def)
qed

text \<open>
  Claim C7. When the handler has fetched the original URL (the request is an icon request
  and the cache gave nothing fresh) and a response came back whose URL is not the
  requested one, the stored redirect mapping afterwards is the one
  \<open>saveRedirectMapping\<close> leaves for the original URL and the response's URL, whatever
  the status of the response; with a working store the original URL then maps to the
  response's URL. When the fetch fails in transport the stored mapping is as before.
\<close>

theorem handle_records_redirect:
  assumes "fst (isIconRequest env u w)"
    and "fst (getIconFromCache env (cacheKey env u w) w) = None"
  shows "(\<forall>r. network env (FetchFollow u) = Some r \<and> url r \<noteq> [] \<and> url r \<noteq> u \<longrightarrow>
            icon_redirect_map (snd (handle env (Request u) w)) =
              icon_redirect_map (saveRedirectMapping env u (url r) w) \<and>
            (chrome_storage env \<and> \<not> storage_set_fails env \<longrightarrow>
               redirect_mapping (snd (handle env (Request u) w)) u = Some (url r))) \<and>
         (network env (FetchFollow u) = None \<longrightarrow>
            icon_redirect_map (snd (handle env (Request u) w)) = icon_redirect_map w)"
  using assms handle_at(3) [of env u w]
  by (auto simp: redirect_mapping_def saveRedirectMapping_map)

theorem handle_records_redirect_witness:
  "fst (isIconRequest (env_working (net_of url_A not_found_response) 0) url_A (world_with [url_A] None [])) \<and>
   fst (getIconFromCache (env_working (net_of url_A not_found_response) 0)
          (cacheKey (env_working (net_of url_A not_found_response) 0) url_A (world_with [url_A] None []))
          (world_with [url_A] None [])) = None \<and>
   network (env_working (net_of url_A not_found_response) 0) (FetchFollow url_A) = Some not_found_response \<and>
   url not_found_response = url_B \<and> url_B \<noteq> [] \<and> url_B \<noteq> url_A \<and>
   status not_found_response = 404 \<and>
   redirect_mapping (snd (handle (env_working (net_of url_A not_found_response) 0) (Request url_A)
                            (world_with [url_A] None []))) url_A = Some url_B \<and>
   fst (isIconRequest (env_working offline 0) url_A (world_with [url_A] None [])) \<and>
   fst (getIconFromCache (env_working offline 0)
          (cacheKey (env_working offline 0) url_A (world_with [url_A] None []))
          (world_with [url_A] None [])) = None \<and>
   network (env_working offline 0) (FetchFollow url_A) = None \<and>
   icon_redirect_map (snd (handle (env_working offline 0) (Request url_A) (world_with [url_A] None []))) = None"
proof -
  let ?e = "env_working (net_of url_A not_found_response) 0"
  let ?o = "env_working offline 0"
  let ?w = "world_with [url_A] None []"
  have a: "fst (isIconRequest ?e url_A ?w)" "fst (isIconRequest ?o url_A ?w)"
    by (simp_all add: run_defs example_defs)
  have b: "fst (getIconFromCache ?e (cacheKey ?e url_A ?w) ?w) = None"
    "fst (getIconFromCache ?o (cacheKey ?o url_A ?w) ?w) = None"
    by (simp_all add: run_defs example_defs)
  have c: "network ?e (FetchFollow url_A) = Some not_found_response"
    "network ?o (FetchFollow url_A) = None"
    "url not_found_response = url_B" "url_B \<noteq> []" "url_B \<noteq> url_A" "status not_found_response = 404"
    "chrome_storage ?e" "\<not> storage_set_fails ?e" "icon_redirect_map ?w = None"
    by (simp_all add: example_defs)
  show ?thesis
    using a b c handle_records_redirect [OF a(1) b(1)] handle_records_redirect [OF a(2) b(2)]
    by simp
qed

text \<open>
  Claim C8. When that fetch brings a response whose status is outside 200 to 299, the
  handler returns this very response, status included, and the last thing it writes to
  the console is the warning about the status.
\<close>

theorem handle_surfaces_status:
  assumes "fst (isIconRequest env u w)"
    and "fst (getIconFromCache env (cacheKey env u w) w) = None"
    and "network env (FetchFollow u) = Some r"
    and "\<not> ok r"
  shows "fst (handle env (Request u) w) = Inr r \<and>
         (\<exists>before. console (snd (handle env (Request u) w)) = before @ [WarnIconStatus u (status r)])"
  using handle_response [OF assms(1-3)] handle_try_warns [OF _ assms(3,4)]
  by simp


theorem handle_surfaces_status_witness:
  "fst (isIconRequest (env_working (net_of url_A not_found_response) 0) url_A (world_with [url_A] None [])) \<and>
   fst (getIconFromCache (env_working (net_of url_A not_found_response) 0)
          (cacheKey (env_working (net_of url_A not_found_response) 0) url_A (world_with [url_A] None []))
          (world_with [url_A] None [])) = None \<and>
   network (env_working (net_of url_A not_found_response) 0) (FetchFollow url_A) = Some not_found_response \<and>
   \<not> ok not_found_response \<and>
   fst (handle (env_working (net_of url_A not_found_response) 0) (Request url_A)
          (world_with [url_A] None [])) = Inr not_found_response \<and>
   last (console (snd (handle (env_working (net_of url_A not_found_response) 0) (Request url_A)
          (world_with [url_A] None [])))) = WarnIconStatus url_A 404"
proof -
  let ?e = "env_working (net_of url_A not_found_response) 0"
  let ?w = "world_with [url_A] None []"
  have a: "fst (isIconRequest ?e url_A ?w)"
    by (simp add: run_defs example_defs)
  have b: "fst (getIconFromCache ?e (cacheKey ?e url_A ?w) ?w) = None"
    by (simp add: run_defs example_defs)
  have c: "network ?e (FetchFollow url_A) = Some not_found_response"
    by (simp add: example_defs)
  have d: "\<not> ok not_found_response" "status not_found_response = 404"
    by (simp_all add: ok_def not_found_response_def)
  show ?thesis
    using a b c d handle_surfaces_status [OF a b c d(1)]
    by auto
qed

text \<open>
  Claim C1, as the code has it. When the handler's fetch of an icon URL fails in transport,
  the handler looks once more, in every cache and without regard to freshness, for the
  resolved URL (the key after redirect resolution, not the URL of the request). When that
  lookup does not reject, the handler returns a response and no error: the entry found,
  or, when there is none, the fixed placeholder, whose content type is \<open>image/png\<close>.
  The caches at that lookup are the ones \<open>getIconFromCache\<close> left.
\<close>

theorem handle_transport_failure_fallback:
  assumes "fst (isIconRequest env u w)"
    and "fst (getIconFromCache env (cacheKey env u w) w) = None"
    and "network env (FetchFollow u) = None"
    and "\<not> caches_match_fails env"
  shows "fst (handle env (Request u) w) =
           Inr (case first_match (caches (snd (handle env (Request u) w)))
                       (fst (resolveRedirectUrl env u w)) of
                  Some stale \<Rightarrow> stale
                | None \<Rightarrow> placeholder) \<and>
         caches (snd (handle env (Request u) w)) =
           caches (snd (getIconFromCache env (cacheKey env u w) w)) \<and>
         content_type placeholder = Some ''image/png'' \<and>
         status placeholder = 200"
  using assms handle_at(1,4) [of env u w]
  by (simp add: cacheKey_def placeholder_content_type) (simp add: placeholder_def)

theorem handle_transport_failure_fallback_witness:
  "fst (isIconRequest (env_working offline 0) url_A (world_with [url_A] None [])) \<and>
   fst (getIconFromCache (env_working offline 0)
          (cacheKey (env_working offline 0) url_A (world_with [url_A] None []))
          (world_with [url_A] None [])) = None \<and>
   network (env_working offline 0) (FetchFollow url_A) = None \<and>
   \<not> caches_match_fails (env_working offline 0) \<and>
   fst (handle (env_working offline 0) (Request url_A) (world_with [url_A] None [])) = Inr placeholder \<and>
   fst (isIconRequest (env_working offline 0) url_A
          (world_with [url_A] None [(''pages'', [url_A \<mapsto> dated_response])])) \<and>
   fst (getIconFromCache (env_working offline 0)
          (cacheKey (env_working offline 0) url_A
             (world_with [url_A] None [(''pages'', [url_A \<mapsto> dated_response])]))
          (world_with [url_A] None [(''pages'', [url_A \<mapsto> dated_response])])) = None \<and>
   fst (handle (env_working offline 0) (Request url_A)
          (world_with [url_A] None [(''pages'', [url_A \<mapsto> dated_response])])) = Inr dated_response"
proof -
  let ?o = "env_working offline 0"
  let ?w = "world_with [url_A] None []"
  let ?v = "world_with [url_A] None [(''pages'', [url_A \<mapsto> dated_response])]"
  have a: "fst (isIconRequest ?o url_A ?w)" "fst (isIconRequest ?o url_A ?v)"
    by (simp_all add: run_defs example_defs)
  have b: "fst (getIconFromCache ?o (cacheKey ?o url_A ?w) ?w) = None"
    "fst (getIconFromCache ?o (cacheKey ?o url_A ?v) ?v) = None"
    by (simp_all add: run_defs example_defs)
  have c: "network ?o (FetchFollow url_A) = None" "\<not> caches_match_fails ?o"
    by (simp_all add: example_defs)
  have d: "first_match (caches (snd (handle ?o (Request url_A) ?w))) (fst (resolveRedirectUrl ?o url_A ?w)) = None"
    "first_match (caches (snd (handle ?o (Request url_A) ?v))) (fst (resolveRedirectUrl ?o url_A ?v)) = Some dated_response"
    by (simp_all add: run_defs example_defs)
  show ?thesis
    using a b c handle_transport_failure_fallback [OF a(1) b(1) c]
      handle_transport_failure_fallback [OF a(2) b(2) c] d
    by simp
qed

theorem pre_resolution_key_counterexample:
  "isCacheExpired (env_working offline 2592000001) (Some dated_response) \<and>
   fst (isIconRequest (env_working offline 2592000001) url_A
          (world_with [url_A] (Some [url_A \<mapsto> url_B]) [(ICON_CACHE_NAME, [url_A \<mapsto> dated_response])])) \<and>
   network (env_working offline 2592000001) (FetchFollow url_A) = None \<and>
   first_match (caches (world_with [url_A] (Some [url_A \<mapsto> url_B])
                          [(ICON_CACHE_NAME, [url_A \<mapsto> dated_response])])) url_A = Some dated_response \<and>
   fst (handle (env_working offline 2592000001) (Request url_A)
          (world_with [url_A] (Some [url_A \<mapsto> url_B]) [(ICON_CACHE_NAME, [url_A \<mapsto> dated_response])]))
     = Inr placeholder \<and>
   placeholder \<noteq> dated_response \<and>
   first_match (caches (snd (handle (env_working offline 2592000001) (Request url_A)
          (world_with [url_A] (Some [url_A \<mapsto> url_B]) [(ICON_CACHE_NAME, [url_A \<mapsto> dated_response])]))))
      url_A = Some dated_response"
  by (simp add: run_defs example_defs placeholder_def)

text \<open>
  Two runs of the failure path. In the first every operation works and the icon cache
  holds an expired entry under the resolved key: \<open>getIconFromCache\<close> deletes it before
  the fetch, so the fallback finds nothing and the placeholder is served. In the second
  the fallback lookup itself rejects, and the rejection leaves the handler.
\<close>

lemma expired_entry_deleted_before_fallback:
  "isCacheExpired (env_working offline 2592000001) (Some dated_response) \<and>
   icon_cache (world_with [url_A] None [(ICON_CACHE_NAME, [url_A \<mapsto> dated_response])]) url_A
     = Some dated_response \<and>
   handle (env_working offline 2592000001) (Request url_A)
     (world_with [url_A] None [(ICON_CACHE_NAME, [url_A \<mapsto> dated_response])]) =
   (Inr placeholder,
    \<lparr>cached_online_icon_urls = Some [url_A], icon_redirect_map = None,
     caches = [(ICON_CACHE_NAME, Map.empty)],
     fetch_log = [FetchFollow url_A],
     console = [ErrorFetchFailed url_A NetworkError, ErrorGetIconFailed url_A NetworkError,
                WarnPlaceholder url_A]\<rparr>)"
  by (simp add: run_defs example_defs)

lemma unguarded_lookup_rejects:
  "handle ((env_working offline 0)\<lparr>caches_match_fails := True\<rparr>) (Request url_A)
     (world_with [url_A] None []) =
   (Inl CacheError,
    \<lparr>cached_online_icon_urls = Some [url_A], icon_redirect_map = None,
     caches = [(ICON_CACHE_NAME, Map.empty)],
     fetch_log = [FetchFollow url_A],
     console = [ErrorFetchFailed url_A NetworkError, ErrorGetIconFailed url_A NetworkError]\<rparr>)"
  by (simp add: run_defs example_defs)

text \<open>
  Claim C3, as the code has it. Whatever the icon cache holds under a key after the
  handler has run, it either held before, or it is the response just fetched, with a
  status from 200 to 399 and a \<open>Content-Type\<close> that contains one of the allow-listed
  image types as a substring. A response whose \<open>Content-Type\<close> is exactly \<open>text/html\<close>
  is never written, whatever its status.
\<close>

theorem handle_stores_image_like_only:
  assumes "icon_cache (snd (handle env req w)) k = Some e"
  shows "(icon_cache w k = Some e \<or>
          (network env (FetchFollow (request_url req)) = Some e \<and>
           200 \<le> status e \<and> status e < 400 \<and>
           (\<exists>ct t. content_type e = Some ct \<and> t \<in> set imageTypes \<and> str_includes ct t))) \<and>
         (content_type e = Some ''text/html'' \<longrightarrow> icon_cache w k = Some e)"
proof -
  obtain u where req: "req = Request u" by (cases req)
  let ?g = "snd (getIconFromCache env (cacheKey env u w) w)"
  have html: "\<not> isImageResponse (Some e)" if "content_type e = Some ''text/html''"
    using that
    by (cases "headers e")
       (simp_all add: isImageResponse_def content_type_def truthy_def imageTypes_def Let_def)
  have old: "icon_cache w k = Some e" if "icon_cache ?g k = Some e"
    using that by (rule icon_cache_getIconFromCache)
  consider (same) "caches (snd (handle env req w)) = caches w"
    | (looked) "caches (snd (handle env req w)) = caches ?g"
    | (stored) r key where "network env (FetchFollow u) = Some r" "200 \<le> status r" "status r < 400"
        "caches (snd (handle env req w)) = caches (cacheIcon env key r ?g)"
    using handle_at(4) [of env u w] unfolding req
    by (auto split: option.splits if_splits)
  then have main: "icon_cache w k = Some e \<or>
     (network env (FetchFollow u) = Some e \<and> 200 \<le> status e \<and> status e < 400 \<and> isImageResponse (Some e))"
  proof cases
    case same
    then show ?thesis using assms icon_cache_cong [OF same] by simp
  next
    case looked
    then show ?thesis using assms icon_cache_cong [OF looked] old by simp
  next
    case stored
    have "icon_cache (cacheIcon env key r ?g) k = Some e"
      using assms icon_cache_cong [OF stored(4)] by simp
    then show ?thesis
      using icon_cache_cacheIcon [of env key r ?g k e] old stored by auto
  qed
  then show ?thesis
    using html by (auto simp: req isImageResponse_iff)
qed

theorem handle_stores_image_like_only_witness:
  "icon_cache (snd (handle (env_working (net_of url_A icon_response) 0) (Request url_A)
                      (world_with [url_A] None []))) url_B = Some icon_response \<and>
   icon_cache (world_with [url_A] None []) url_B = None \<and>
   network (env_working (net_of url_A icon_response) 0) (FetchFollow url_A) = Some icon_response \<and>
   status icon_response = 200 \<and>
   content_type icon_response = Some ''image/x-icon'' \<and>
   ''image/x-icon'' \<in> set imageTypes \<and>
   str_includes ''image/x-icon'' ''image/x-icon'' \<and>
   redirect_mapping (snd (handle (env_working (net_of url_A icon_response) 0) (Request url_A)
                      (world_with [url_A] None []))) url_A = Some url_B"
proof -
  have s: "icon_cache (snd (handle (env_working (net_of url_A icon_response) 0) (Request url_A)
                      (world_with [url_A] None []))) url_B = Some icon_response"
    by (simp add: run_defs example_defs)
  show ?thesis
    using s handle_stores_image_like_only [OF s]
    by (simp add: run_defs example_defs)
qed

theorem content_type_gate_counterexample:
  "fst (isIconRequest (env_working (net_of url_A disguised_response) 0) url_A (world_with [url_A] None [])) \<and>
   network (env_working (net_of url_A disguised_response) 0) (FetchFollow url_A) = Some disguised_response \<and>
   content_type disguised_response = Some ''text/html; x=image/png'' \<and>
   ''text/html; x=image/png'' \<notin> set imageTypes \<and>
   icon_cache (world_with [url_A] None []) url_A = None \<and>
   icon_cache (snd (handle (env_working (net_of url_A disguised_response) 0) (Request url_A)
                      (world_with [url_A] None []))) url_A = Some disguised_response"
  by (simp add: run_defs example_defs)

end
